theory Spec2Isabelle
  imports Main
begin

section \<open>Inventory service: the JSON-backed collection and its HTTP handlers\<close>

text \<open>
  The service of \<^verbatim>\<open>index.js\<close> keeps every item in one JSON document,
  \<^verbatim>\<open>inventory.json\<close>. Each handler loads the whole collection, changes it in memory
  and writes the whole collection back. The handlers are embedded as functions from the
  request data and the document to a response and the document afterwards.

  Strings are lists of \<^typ>\<open>char\<close>, read as code units below 256. The clock reading of
  \<^verbatim>\<open>Date.now()\<close> is an input of the register handler, a natural number of milliseconds.
\<close>

subsection \<open>Data model\<close>

text \<open>
  An item as \<^verbatim>\<open>app.post('/register')\<close> builds it:
  \<^verbatim>\<open>{ id, name, description, photoPath }\<close>, where \<^verbatim>\<open>photoPath\<close> is a string or
  \<^verbatim>\<open>null\<close>. The field \<^verbatim>\<open>id\<close> is named \<open>id'\<close>, since \<open>id\<close> is the identity of HOL.
\<close>

record item =
  id' :: string
  name :: string
  description :: string
  photoPath :: "string option"

type_synonym inventory = "item list"

text \<open>
  The text of the document is kept up to what \<^verbatim>\<open>JSON.parse\<close> makes of it: either the
  parser rejects it, or it reads it as a collection. \<^verbatim>\<open>JSON.stringify\<close> of a collection
  whose fields are strings and \<^verbatim>\<open>null\<close> yields a text that parses back to the same
  collection, which is what \<open>Encoded\<close> stands for. A text that is valid JSON of another
  shape is written by no handler and is not part of the model.
\<close>

datatype json_text = Malformed string | Encoded inventory

datatype document = Missing | Unreadable | Content json_text

datatype io_error = ENOENT | EACCES

datatype syntax_error = SyntaxError

fun readFile :: "document \<Rightarrow> io_error + json_text" where
  "readFile Missing = Inl ENOENT"
| "readFile Unreadable = Inl EACCES"
| "readFile (Content t) = Inr t"

text \<open>Writing replaces the document. Storage faults while writing are not modelled.\<close>

definition writeFile :: "document \<Rightarrow> json_text \<Rightarrow> document" where
  "writeFile doc t = Content t"

fun JSON_parse :: "json_text \<Rightarrow> syntax_error + inventory" where
  "JSON_parse (Malformed s) = Inl SyntaxError"
| "JSON_parse (Encoded v) = Inr v"

definition JSON_stringify :: "inventory \<Rightarrow> json_text" where
  "JSON_stringify v = Encoded v"

text \<open>
  \<^verbatim>\<open>
  async function ensureCacheDir() {
    await fs.mkdir(CACHE_DIR, { recursive: true });
    if (!existsSync(INVENTORY_FILE)) {
      await fs.writeFile(INVENTORY_FILE, "[]", "utf-8");
    }
  }
  \<close>
\<close>

definition existsSync :: "document \<Rightarrow> bool" where
  "existsSync doc = (doc \<noteq> Missing)"

definition ensureCacheDir :: "document \<Rightarrow> document" where
  "ensureCacheDir doc = (if \<not> existsSync doc then writeFile doc (Encoded []) else doc)"

text \<open>
  \<^verbatim>\<open>
  async function loadInventory() {
    try {
      const data = await fs.readFile(INVENTORY_FILE, "utf-8");
      return JSON.parse(data);
    } catch {
      return [];
    }
  }
  \<close>
  Both the rejected read and the syntax error of the parser land in the \<^verbatim>\<open>catch\<close>.
\<close>

definition loadInventory :: "document \<Rightarrow> inventory" where
  "loadInventory doc =
     (case readFile doc of
        Inl e \<Rightarrow> []
      | Inr data \<Rightarrow>
          (case JSON_parse data of
             Inl e \<Rightarrow> []
           | Inr v \<Rightarrow> v))"

definition saveInventory :: "inventory \<Rightarrow> document \<Rightarrow> document" where
  "saveInventory inventory doc = writeFile doc (JSON_stringify inventory)"

subsection \<open>JavaScript primitives the handlers use\<close>

text \<open>
  \<^verbatim>\<open>String.prototype.trim\<close> removes white space and line terminators from both ends.
  Below 256 these are TAB, LF, VT, FF, CR, SPACE and NBSP.
\<close>

definition isWhiteSpace :: "char \<Rightarrow> bool" where
  "isWhiteSpace c =
     (c = CHR 0x09 \<or> c = CHR 0x0A \<or> c = CHR 0x0B \<or> c = CHR 0x0C \<or> c = CHR 0x0D
      \<or> c = CHR 0x20 \<or> c = CHR 0xA0)"

definition trim :: "string \<Rightarrow> string" where
  "trim s = rev (dropWhile isWhiteSpace (rev (dropWhile isWhiteSpace s)))"

text \<open>
  A form field of \<^verbatim>\<open>req.body\<close> is a string or \<^verbatim>\<open>undefined\<close> (\<open>None\<close>). It is truthy
  when it is a non-empty string.
\<close>

definition truthy :: "string option \<Rightarrow> bool" where
  "truthy v = (case v of None \<Rightarrow> False | Some s \<Rightarrow> s \<noteq> [])"

text \<open>\<^verbatim>\<open>description || ""\<close>\<close>

definition or_empty :: "string option \<Rightarrow> string" where
  "or_empty v = (case v of None \<Rightarrow> [] | Some s \<Rightarrow> if s \<noteq> [] then s else [])"

text \<open>
  A field of the JSON body of \<^verbatim>\<open>PUT /inventory/:id\<close>. The OpenAPI comment of the route
  declares \<^verbatim>\<open>name\<close> and \<^verbatim>\<open>description\<close> as strings, so a field is absent
  (\<^verbatim>\<open>undefined\<close>), \<^verbatim>\<open>null\<close> or a string.
\<close>

datatype field = Undefined | Null | Str string

record body =
  b_name :: field
  b_description :: field

text \<open>
  \<^verbatim>\<open>req.body\<close> itself is \<^verbatim>\<open>undefined\<close> (\<open>None\<close>) when no body parser has filled it:
  express 5 leaves it so for a request without a body, or with a content type that none
  of \<^verbatim>\<open>express.json()\<close>, \<^verbatim>\<open>express.urlencoded()\<close> and multer handles. (Under
  express 4 the JSON parser sets it to an object on every request, and the case does not
  arise.) Reading a field of it then throws.

  The form of \<^verbatim>\<open>POST /register\<close> carries the fields \<^verbatim>\<open>inventory_name\<close> and
  \<^verbatim>\<open>description\<close>, in this order; the form of \<^verbatim>\<open>POST /search\<close> carries
  \<^verbatim>\<open>id\<close> and \<^verbatim>\<open>has_photo\<close>.
\<close>

datatype register_body = RegisterBody "string option" "string option"

datatype search_body = SearchBody "string option" "string option"

text \<open>\<^verbatim>\<open>a ?? b\<close>: the right operand when the left one is \<^verbatim>\<open>undefined\<close> or \<^verbatim>\<open>null\<close>.\<close>

fun nullish :: "field \<Rightarrow> string \<Rightarrow> string" where
  "nullish Undefined cur = cur"
| "nullish Null cur = cur"
| "nullish (Str s) cur = s"

text \<open>
  \<^verbatim>\<open>Date.now().toString()\<close>: the decimal digits of the clock reading. (A number
  prints all its digits below \<^verbatim>\<open>1e21\<close>, far above any clock reading.)
\<close>

definition digit :: "nat \<Rightarrow> char" where
  "digit d = ''0123456789'' ! d"

function toString :: "nat \<Rightarrow> string" where
  "toString n = (if n < 10 then [digit n] else toString (n div 10) @ [digit (n mod 10)])"
  by pat_completeness auto
termination
  by (relation "measure (\<lambda>n. n)") auto

declare toString.simps [simp del]

text \<open>
  \<^verbatim>\<open>findIndex\<close> yields the first index whose element satisfies the test, \<^verbatim>\<open>-1\<close>
  (\<open>None\<close>) when there is none. \<^verbatim>\<open>find\<close> yields a reference to that same element,
  \<^verbatim>\<open>undefined\<close> when there is none; the model keeps the index in its place,
  so that an assignment through the reference is an update of the list at that index.
\<close>

fun findIndex :: "('a \<Rightarrow> bool) \<Rightarrow> 'a list \<Rightarrow> nat option" where
  "findIndex P [] = None"
| "findIndex P (x # xs) = (if P x then Some 0 else map_option Suc (findIndex P xs))"

text \<open>\<^verbatim>\<open>inventory.splice(index, 1)\<close>\<close>

definition splice1 :: "nat \<Rightarrow> 'a list \<Rightarrow> 'a list" where
  "splice1 i xs = take i xs @ drop (Suc i) xs"

subsection \<open>Requests and responses\<close>

text \<open>
  What \<^verbatim>\<open>buildPhotoUrl\<close> reads of the request: the protocol and the \<^verbatim>\<open>Host\<close> header,
  which \<^verbatim>\<open>req.get\<close> gives as \<^verbatim>\<open>undefined\<close> when the header is absent; the template
  literal then prints \<^verbatim>\<open>undefined\<close>.
  \<^verbatim>\<open>
  function buildPhotoUrl(req, id) {
    return `${req.protocol}://${req.get("host")}/inventory/${id}/photo`;
  }
  \<close>
\<close>

record request =
  protocol :: string
  host :: "string option"

definition buildPhotoUrl :: "request \<Rightarrow> string \<Rightarrow> string" where
  "buildPhotoUrl req i =
     protocol req @ ''://'' @ (case host req of None \<Rightarrow> ''undefined'' | Some h \<Rightarrow> h)
       @ ''/inventory/'' @ i @ ''/photo''"

text \<open>
  \<^verbatim>\<open>req.file\<close> of \<^verbatim>\<open>multer({ dest: CACHE_DIR })\<close>: the disk storage reports the
  destination directory, the file name it generated, and as \<^verbatim>\<open>path\<close> the two joined.
\<close>

record upload =
  destination :: string
  filename :: string

definition path :: "upload \<Rightarrow> string" where
  "path f = destination f @ ''/'' @ filename f"

record entry =
  e_id :: string
  e_name :: string
  e_description :: string
  e_photoUrl :: "string option"

text \<open>
  A handler that throws rejects its promise, which express 5 passes to its default error
  handler: the request is answered 500. The exception modelled is the \<^verbatim>\<open>TypeError\<close>
  of reading a property of an \<^verbatim>\<open>undefined\<close> \<^verbatim>\<open>req.body\<close>; it is thrown before
  anything is written.
\<close>

datatype js_error = TypeError

datatype payload =
    ErrorMsg string
  | Created entry
  | Listing "entry list"
  | Single entry
  | Updated string string string
  | PhotoUpdated string
  | Deleted string
  | Found string string string bool
  | Uncaught js_error

type_synonym response = "nat \<times> payload"


subsection \<open>Handlers\<close>

text \<open>
  \<^verbatim>\<open>
  app.post('/register', upload.single("photo"), async (req, res) => {
    const { inventory_name, description } = req.body;
    if (!inventory_name || inventory_name.trim() === "") {
      return res.status(400).json({ error: "inventory_name is required" });
    }
    const inventory = await loadInventory();
    const id = Date.now().toString();
    const item = {
      id,
      name: inventory_name,
      description: description || "",
      photoPath: req.file ? req.file.path : null
    };
    inventory.push(item);
    await saveInventory(inventory);
    res.status(201).json({
      message: "Created", id, name: item.name, description: item.description,
      photoUrl: item.photoPath ? buildPhotoUrl(req, id) : null
    });
  });
  \<close>
\<close>

definition photoUrl :: "request \<Rightarrow> item \<Rightarrow> string option" where
  "photoUrl req it =
     (if truthy (photoPath it) then Some (buildPhotoUrl req (id' it)) else None)"

definition to_entry :: "request \<Rightarrow> item \<Rightarrow> entry" where
  "to_entry req it =
     \<lparr>e_id = id' it, e_name = name it, e_description = description it,
      e_photoUrl = photoUrl req it\<rparr>"

text \<open>
  The destructuring of \<^verbatim>\<open>req.body\<close> is the first statement of the handler: when
  \<^verbatim>\<open>req.body\<close> is \<^verbatim>\<open>undefined\<close> it throws before the name is tested.
\<close>

definition post_register ::
  "request \<Rightarrow> register_body option \<Rightarrow> upload option \<Rightarrow> nat \<Rightarrow> document
     \<Rightarrow> response \<times> document" where
  "post_register req req_body file_opt now doc =
     (case req_body of
        None \<Rightarrow> ((500, Uncaught TypeError), doc)
      | Some (RegisterBody inventory_name descr) \<Rightarrow>
          (case inventory_name of
             None \<Rightarrow> ((400, ErrorMsg ''inventory_name is required''), doc)
           | Some n \<Rightarrow>
               if n = [] \<or> trim n = [] then
                 ((400, ErrorMsg ''inventory_name is required''), doc)
               else
                 let inventory = loadInventory doc;
                     i = toString now;
                     it = \<lparr>id' = i, name = n, description = or_empty descr,
                           photoPath = (case file_opt of None \<Rightarrow> None | Some f \<Rightarrow> Some (path f))\<rparr>;
                     inventory = inventory @ [it]
                 in ((201, Created (to_entry req it)), saveInventory inventory doc)))"

text \<open>
  \<^verbatim>\<open>
  app.get('/inventory', async (req, res) => {
    const inventory = await loadInventory();
    const result = inventory.map(item => ({
      id: item.id, name: item.name, description: item.description,
      photoUrl: item.photoPath ? buildPhotoUrl(req, item.id) : null
    }));
    res.status(200).json(result);
  });
  \<close>
\<close>

definition get_inventory :: "request \<Rightarrow> document \<Rightarrow> response \<times> document" where
  "get_inventory req doc =
     (let inventory = loadInventory doc
      in ((200, Listing (map (to_entry req) inventory)), doc))"

text \<open>
  \<^verbatim>\<open>
  app.get('/inventory/:id', async (req, res) => {
    const inventory = await loadInventory();
    const item = inventory.find(x => x.id === req.params.id);
    if (!item) return res.status(404).json({ error: "Not found" });
    res.status(200).json({ id: item.id, name: item.name, description: item.description,
      photoUrl: item.photoPath ? buildPhotoUrl(req, item.id) : null });
  });
  \<close>
\<close>

definition get_inventory_id :: "request \<Rightarrow> string \<Rightarrow> document \<Rightarrow> response \<times> document" where
  "get_inventory_id req pid doc =
     (let inventory = loadInventory doc
      in case findIndex (\<lambda>x. id' x = pid) inventory of
           None \<Rightarrow> ((404, ErrorMsg ''Not found''), doc)
         | Some k \<Rightarrow> ((200, Single (to_entry req (inventory ! k))), doc))"

text \<open>
  \<^verbatim>\<open>
  app.put('/inventory/:id', async (req, res) => {
    const inventory = await loadInventory();
    const item = inventory.find(x => x.id === req.params.id);
    if (!item) return res.status(404).json({ error: "Not found" });
    item.name = req.body.name ?? item.name;
    item.description = req.body.description ?? item.description;
    await saveInventory(inventory);
    res.status(200).json({
      message: "Updated", id: item.id, name: item.name, description: item.description
    });
  });
  \<close>
\<close>

text \<open>
  \<^verbatim>\<open>req.body\<close> is read only once the item is found: when it is \<^verbatim>\<open>undefined\<close>,
  \<^verbatim>\<open>req.body.name\<close> throws, before anything is saved.
\<close>

definition put_inventory_id ::
  "string \<Rightarrow> body option \<Rightarrow> document \<Rightarrow> response \<times> document" where
  "put_inventory_id pid req_body doc =
     (let inventory = loadInventory doc
      in case findIndex (\<lambda>x. id' x = pid) inventory of
           None \<Rightarrow> ((404, ErrorMsg ''Not found''), doc)
         | Some k \<Rightarrow>
             (case req_body of
                None \<Rightarrow> ((500, Uncaught TypeError), doc)
              | Some b \<Rightarrow>
                  let it = inventory ! k;
                      it = it\<lparr>name := nullish (b_name b) (name it)\<rparr>;
                      it = it\<lparr>description := nullish (b_description b) (description it)\<rparr>;
                      inventory = inventory[k := it]
                  in ((200, Updated (id' it) (name it) (description it)),
                      saveInventory inventory doc)))"

text \<open>
  \<^verbatim>\<open>
  app.put('/inventory/:id/photo', upload.single("photo"), async (req, res) => {
    const inventory = await loadInventory();
    const item = inventory.find(x => x.id === req.params.id);
    if (!item) return res.status(404).json({ error: "Not found" });
    if (!req.file) return res.status(400).json({ error: "photo is required" });
    item.photoPath = req.file.path;
    await saveInventory(inventory);
    res.status(200).json({ message: "Photo updated", photoUrl: buildPhotoUrl(req, item.id) });
  });
  \<close>
\<close>

definition put_inventory_id_photo ::
  "request \<Rightarrow> string \<Rightarrow> upload option \<Rightarrow> document \<Rightarrow> response \<times> document" where
  "put_inventory_id_photo req pid file_opt doc =
     (let inventory = loadInventory doc
      in case findIndex (\<lambda>x. id' x = pid) inventory of
           None \<Rightarrow> ((404, ErrorMsg ''Not found''), doc)
         | Some k \<Rightarrow>
             (case file_opt of
                None \<Rightarrow> ((400, ErrorMsg ''photo is required''), doc)
              | Some f \<Rightarrow>
                  let it = (inventory ! k)\<lparr>photoPath := Some (path f)\<rparr>;
                      inventory = inventory[k := it]
                  in ((200, PhotoUpdated (buildPhotoUrl req (id' it))),
                      saveInventory inventory doc)))"

text \<open>
  \<^verbatim>\<open>
  app.delete('/inventory/:id', async (req, res) => {
    const inventory = await loadInventory();
    const index = inventory.findIndex(x => x.id === req.params.id);
    if (index === -1) {
      return res.status(404).json({ error: "Not found" });
    }
    const [removed] = inventory.splice(index, 1);
    await saveInventory(inventory);
    res.status(200).json({ message: "Deleted", id: removed.id });
  });
  \<close>
\<close>

definition delete_inventory_id :: "string \<Rightarrow> document \<Rightarrow> response \<times> document" where
  "delete_inventory_id pid doc =
     (let inventory = loadInventory doc
      in case findIndex (\<lambda>x. id' x = pid) inventory of
           None \<Rightarrow> ((404, ErrorMsg ''Not found''), doc)
         | Some index \<Rightarrow>
             let removed = inventory ! index;
                 inventory = splice1 index inventory
             in ((200, Deleted (id' removed)), saveInventory inventory doc))"

text \<open>
  \<^verbatim>\<open>
  app.post('/search', async (req, res) => {
    const { id, has_photo } = req.body;
    const inventory = await loadInventory();
    const item = inventory.find(x => x.id === id);
    if (!item) return res.status(404).json({ error: "Not found" });
    let desc = item.description;
    if (has_photo && item.photoPath) {
      desc += `\nPhoto: ${buildPhotoUrl(req, id)}`;
    }
    res.status(200).json({
      id: item.id, name: item.name, description: desc, hasPhoto: !!item.photoPath
    });
  });
  \<close>
  The destructuring throws when \<^verbatim>\<open>req.body\<close> is \<^verbatim>\<open>undefined\<close>. The \<^verbatim>\<open>id\<close> of
  the form is a string or \<^verbatim>\<open>undefined\<close>; no stored id is \<^verbatim>\<open>undefined\<close>, so the
  strict comparison then fails for every item.
\<close>

definition photo_note :: "request \<Rightarrow> string option \<Rightarrow> string" where
  "photo_note req sid =
     CHR 0x0A # ''Photo: '' @ buildPhotoUrl req (case sid of None \<Rightarrow> ''undefined'' | Some s \<Rightarrow> s)"

definition post_search ::
  "request \<Rightarrow> search_body option \<Rightarrow> document \<Rightarrow> response \<times> document" where
  "post_search req req_body doc =
     (case req_body of
        None \<Rightarrow> ((500, Uncaught TypeError), doc)
      | Some (SearchBody sid has_photo) \<Rightarrow>
          (let inventory = loadInventory doc
           in (case findIndex (\<lambda>x. Some (id' x) = sid) inventory of
                 None \<Rightarrow> ((404, ErrorMsg ''Not found''), doc)
               | Some k \<Rightarrow>
                   let it = inventory ! k;
                       desc = description it;
                       desc = (if truthy has_photo \<and> truthy (photoPath it)
                               then desc @ photo_note req sid else desc)
                   in ((200, Found (id' it) (name it) desc (truthy (photoPath it))), doc))))"

subsection \<open>Sequences of requests\<close>

datatype operation =
    Register request "register_body option" "upload option" nat
  | ListAll request
  | GetById request string
  | UpdateFields string "body option"
  | ReplacePhoto request string "upload option"
  | Delete string
  | Search request "search_body option"

fun handle :: "operation \<Rightarrow> document \<Rightarrow> response \<times> document" where
  "handle (Register req b f now) doc = post_register req b f now doc"
| "handle (ListAll req) doc = get_inventory req doc"
| "handle (GetById req pid) doc = get_inventory_id req pid doc"
| "handle (UpdateFields pid b) doc = put_inventory_id pid b doc"
| "handle (ReplacePhoto req pid f) doc = put_inventory_id_photo req pid f doc"
| "handle (Delete pid) doc = delete_inventory_id pid doc"
| "handle (Search req b) doc = post_search req b doc"

fun run :: "operation list \<Rightarrow> document \<Rightarrow> document" where
  "run [] doc = doc"
| "run (op # ops) doc = run ops (snd (handle op doc))"

text \<open>
  The clock readings that a sequence of requests takes, in order. The register handler
  calls \<^verbatim>\<open>Date.now()\<close> only after the name has passed its test, so a Register
  request that throws or is refused takes no reading.
\<close>

fun clock_readings :: "operation list \<Rightarrow> nat list" where
  "clock_readings [] = []"
| "clock_readings (Register req b f now # ops) =
     (case b of
        None \<Rightarrow> clock_readings ops
      | Some (RegisterBody n d) \<Rightarrow>
          (case n of
             None \<Rightarrow> clock_readings ops
           | Some s \<Rightarrow>
               if s = [] \<or> trim s = [] then clock_readings ops else now # clock_readings ops))"
| "clock_readings (op # ops) = clock_readings ops"

subsection \<open>The spec's wording of a missing or blank name\<close>


section \<open>Properties of the embedding\<close>

subsection \<open>Storage, primitives and the effect of each handler on the collection\<close>

lemma load_save [simp]: "loadInventory (saveInventory xs doc) = xs"
  by (simp add: loadInventory_def saveInventory_def writeFile_def JSON_stringify_def)


lemma findIndex_None_iff: "findIndex P xs = None \<longleftrightarrow> (\<forall>x \<in> set xs. \<not> P x)"
  by (induction xs) auto

lemma findIndex_Some:
  "findIndex P xs = Some k \<Longrightarrow> k < length xs \<and> P (xs ! k) \<and> (\<forall>j<k. \<not> P (xs ! j))"
proof (induction xs arbitrary: k)
  case Nil
  then show ?case by simp
next
  case (Cons x xs)
  show ?case
  proof (cases "P x")
    case True
    with Cons.prems show ?thesis by simp
  next
    case False
    with Cons.prems obtain k' where k': "findIndex P xs = Some k'" "k = Suc k'"
      by auto
    from Cons.IH [OF k'(1)] False k'(2) show ?thesis
      by (auto simp: nth_Cons split: nat.splits)
  qed
qed

lemma digit_inj: "a < 10 \<Longrightarrow> b < 10 \<Longrightarrow> digit a = digit b \<Longrightarrow> a = b"
proof -
  assume a: "a < 10" and b: "b < 10" and e: "digit a = digit b"
  have d: "distinct ''0123456789''" by simp
  have l: "length ''0123456789'' = 10" by simp
  from e have "''0123456789'' ! a = ''0123456789'' ! b" by (simp only: digit_def)
  with d a b l show "a = b" by (simp only: nth_eq_iff_index_eq)
qed

lemma toString_length: "length (toString n) = Suc 0 \<longleftrightarrow> n < 10"
proof (induction n rule: toString.induct)
  case (1 n)
  show ?case
  proof (cases "n < 10")
    case True
    then show ?thesis by (simp add: toString.simps [of n])
  next
    case False
    have "toString (n div 10) \<noteq> []"
      by (subst toString.simps) simp
    with False show ?thesis by (simp add: toString.simps [of n])
  qed
qed

lemma toString_inj: "toString n = toString m \<Longrightarrow> n = m"
proof (induction n arbitrary: m rule: toString.induct)
  case (1 n)
  show ?case
  proof (cases "n < 10")
    case True
    with "1.prems" [symmetric] have "length (toString m) = Suc 0" by (simp add: toString.simps [of n])
    then have m: "m < 10" by (simp add: toString_length)
    with True "1.prems" have "digit n = digit m"
      by (simp add: toString.simps [of n] toString.simps [of m])
    with True m show ?thesis by (rule digit_inj)
  next
    case False
    then have "length (toString n) \<noteq> Suc 0" by (simp add: toString_length)
    with "1.prems" have m: "\<not> m < 10" by (simp add: toString_length)
    from "1.prems" False m
    have e: "toString (n div 10) @ [digit (n mod 10)] = toString (m div 10) @ [digit (m mod 10)]"
      by (simp add: toString.simps [of n] toString.simps [of m])
    then have "toString (n div 10) = toString (m div 10)" and d: "digit (n mod 10) = digit (m mod 10)"
      by simp_all
    with "1.IH" False have q: "n div 10 = m div 10" by simp
    have "n mod 10 = m mod 10" using d by (intro digit_inj) simp_all
    with q show ?thesis by (metis div_mult_mod_eq)
  qed
qed


lemma findIndex_first:
  "k < length xs \<Longrightarrow> P (xs ! k) \<Longrightarrow> \<forall>j<k. \<not> P (xs ! j) \<Longrightarrow> findIndex P xs = Some k"
proof (induction xs arbitrary: k)
  case Nil
  then show ?case by simp
next
  case (Cons x xs)
  show ?case
  proof (cases k)
    case 0
    with Cons.prems show ?thesis by simp
  next
    case (Suc k')
    with Cons.prems have "\<not> P x" by auto
    moreover from Cons.prems Suc have "findIndex P xs = Some k'"
      by (intro Cons.IH) auto
    ultimately show ?thesis using Suc by simp
  qed
qed

lemma trim_Nil_imp: "n = [] \<Longrightarrow> trim n = []"
  by (simp add: trim_def)

lemma path_nonempty: "path f \<noteq> []"
  by (simp add: path_def)

lemma register_no_body: "post_register req None f now doc = ((500, Uncaught TypeError), doc)"
  by (simp add: post_register_def)

lemma register_inventory:
  "loadInventory (snd (post_register req (Some (RegisterBody n d)) f now doc)) =
     (case n of
        None \<Rightarrow> loadInventory doc
      | Some s \<Rightarrow>
          if trim s = [] then loadInventory doc
          else loadInventory doc @
            [\<lparr>id' = toString now, name = s, description = or_empty d,
              photoPath = map_option path f\<rparr>])"
  by (auto simp: post_register_def Let_def trim_Nil_imp split: option.splits)

lemma update_no_body: "snd (put_inventory_id pid None doc) = doc"
  by (simp add: put_inventory_id_def Let_def split: option.splits)

lemma update_inventory:
  "loadInventory (snd (put_inventory_id pid (Some b) doc)) =
     (case findIndex (\<lambda>x. id' x = pid) (loadInventory doc) of
        None \<Rightarrow> loadInventory doc
      | Some k \<Rightarrow>
          (loadInventory doc)[k := (loadInventory doc ! k)
             \<lparr>name := nullish (b_name b) (name (loadInventory doc ! k)),
              description := nullish (b_description b) (description (loadInventory doc ! k))\<rparr>])"
  by (simp add: put_inventory_id_def Let_def split: option.splits)

lemma photo_inventory:
  "loadInventory (snd (put_inventory_id_photo req pid f doc)) =
     (case findIndex (\<lambda>x. id' x = pid) (loadInventory doc) of
        None \<Rightarrow> loadInventory doc
      | Some k \<Rightarrow>
          (case f of
             None \<Rightarrow> loadInventory doc
           | Some u \<Rightarrow> (loadInventory doc)[k := (loadInventory doc ! k)\<lparr>photoPath := Some (path u)\<rparr>]))"
  by (simp add: put_inventory_id_photo_def Let_def split: option.splits)

lemma delete_inventory:
  "loadInventory (snd (delete_inventory_id pid doc)) =
     (case findIndex (\<lambda>x. id' x = pid) (loadInventory doc) of
        None \<Rightarrow> loadInventory doc
      | Some k \<Rightarrow> splice1 k (loadInventory doc))"
  by (simp add: delete_inventory_id_def Let_def split: option.splits)

lemma list_document: "snd (get_inventory req doc) = doc"
  by (simp add: get_inventory_def Let_def)

lemma get_document: "snd (get_inventory_id req pid doc) = doc"
  by (simp add: get_inventory_id_def Let_def split: option.splits)

lemma search_document: "snd (post_search req b doc) = doc"
  by (simp add: post_search_def Let_def split: option.splits search_body.splits)


lemma map_splice1: "map f (splice1 k xs) = splice1 k (map f xs)"
  by (simp add: splice1_def take_map drop_map)

lemma set_splice1: "set (splice1 k xs) \<subseteq> set xs"
  using set_take_subset [of k xs] set_drop_subset [of "Suc k" xs]
  by (auto simp: splice1_def)

lemma distinct_splice1: "distinct xs \<Longrightarrow> distinct (splice1 k xs)"
proof -
  assume d: "distinct xs"
  then have "distinct (take k xs @ drop k xs)" by simp
  then have "set (take k xs) \<inter> set (drop k xs) = {}"
    by (simp only: distinct_append)
  moreover have "set (drop (Suc k) xs) \<subseteq> set (drop k xs)"
    by (rule set_drop_subset_set_drop) simp
  ultimately have "set (take k xs) \<inter> set (drop (Suc k) xs) = {}" by blast
  with d show ?thesis by (simp add: splice1_def)
qed

lemma ids_update:
  "k < length xs \<Longrightarrow> id' y = id' (xs ! k) \<Longrightarrow> map id' (xs[k := y]) = map id' xs"
  by (simp add: map_update list_update_same_conv)

lemma handle_ids:
  assumes "clock_readings [op] = []"
  shows "set (map id' (loadInventory (snd (handle op doc)))) \<subseteq> set (map id' (loadInventory doc))"
    and "distinct (map id' (loadInventory doc)) \<Longrightarrow>
         distinct (map id' (loadInventory (snd (handle op doc))))"
proof -
  let ?inv = "loadInventory doc"
  let ?inv' = "loadInventory (snd (handle op doc))"
  have "map id' ?inv' = map id' ?inv \<or> (\<exists>k. map id' ?inv' = splice1 k (map id' ?inv))"
  proof (cases op)
    case (Register req b f now)
    show ?thesis
    proof (cases b)
      case None
      with Register show ?thesis by (simp add: register_no_body)
    next
      case (Some form)
      with Register assms show ?thesis
        by (cases form)
          (auto simp: register_inventory trim_Nil_imp split: option.splits if_splits)
    qed
  next
    case (ListAll req)
    then show ?thesis by (simp add: list_document)
  next
    case (GetById req pid)
    then show ?thesis by (simp add: get_document)
  next
    case (UpdateFields pid b)
    then show ?thesis
      by (cases b)
        (auto simp: update_no_body update_inventory ids_update split: option.splits
          dest: findIndex_Some)
  next
    case (ReplacePhoto req pid f)
    then show ?thesis
      by (auto simp: photo_inventory ids_update split: option.splits dest: findIndex_Some)
  next
    case (Delete pid)
    then show ?thesis
      by (auto simp: delete_inventory map_splice1 split: option.splits)
  next
    case (Search req b)
    then show ?thesis by (simp add: search_document)
  qed
  then consider (same) "map id' ?inv' = map id' ?inv"
    | (cut) k where "map id' ?inv' = splice1 k (map id' ?inv)"
    by blast
  note shape = this
  show "set (map id' ?inv') \<subseteq> set (map id' ?inv)"
  proof (cases rule: shape)
    case same
    then show ?thesis by (simp only: subset_refl)
  next
    case (cut k)
    then show ?thesis by (simp only: set_splice1)
  qed
  show "distinct (map id' ?inv')" if "distinct (map id' ?inv)"
  proof (cases rule: shape)
    case same
    with that show ?thesis by (simp only:)
  next
    case (cut k)
    with that show ?thesis by (simp only: distinct_splice1)
  qed
qed

lemma run_ids:
  "distinct (map id' (loadInventory doc)) \<Longrightarrow>
   set (map id' (loadInventory doc)) \<subseteq> toString ` T \<Longrightarrow>
   distinct (clock_readings ops) \<Longrightarrow>
   set (clock_readings ops) \<inter> T = {} \<Longrightarrow>
   distinct (map id' (loadInventory (run ops doc))) \<and>
   set (map id' (loadInventory (run ops doc))) \<subseteq> toString ` (T \<union> set (clock_readings ops))"
proof (induction ops arbitrary: doc T)
  case Nil
  then show ?case by simp
next
  case (Cons op ops)
  let ?doc' = "snd (handle op doc)"
  show ?case
  proof (cases "clock_readings [op] = []")
    case True
    then have cr: "clock_readings (op # ops) = clock_readings ops"
      by (cases op) (auto split: option.splits register_body.splits if_splits)
    from handle_ids [OF True, of doc] Cons.prems(1,2)
    have "distinct (map id' (loadInventory ?doc'))"
      and "set (map id' (loadInventory ?doc')) \<subseteq> toString ` T"
      by blast+
    from Cons.IH [OF this] Cons.prems(3,4) cr show ?thesis by simp
  next
    case False
    then obtain req s d f now where op: "op = Register req (Some (RegisterBody (Some s) d)) f now"
      and s: "s \<noteq> []" "trim s \<noteq> []"
      by (cases op) (auto split: option.splits register_body.splits if_splits)
    then have cr: "clock_readings (op # ops) = now # clock_readings ops"
      by simp
    from Cons.prems(3,4) have now: "now \<notin> T" "now \<notin> set (clock_readings ops)"
      and d: "distinct (clock_readings ops)" and i: "set (clock_readings ops) \<inter> T = {}"
      unfolding cr by auto
    have fresh: "toString now \<notin> toString ` T"
      using now(1) toString_inj by blast
    with Cons.prems(1,2) s have "distinct (map id' (loadInventory ?doc'))"
      and "set (map id' (loadInventory ?doc')) \<subseteq> toString ` (insert now T)"
      by (auto simp: op register_inventory)
    from Cons.IH [OF this d] i now(2) show ?thesis
      unfolding cr by (simp add: op Un_commute insert_commute)
  qed
qed

lemmas storage_defs =
  loadInventory_def saveInventory_def writeFile_def JSON_stringify_def ensureCacheDir_def
  existsSync_def

lemmas handler_defs =
  post_register_def get_inventory_def get_inventory_id_def put_inventory_id_def
  put_inventory_id_photo_def delete_inventory_id_def post_search_def to_entry_def
  photoUrl_def truthy_def or_empty_def trim_def isWhiteSpace_def path_def Let_def

lemma fresh_start: "loadInventory (ensureCacheDir Missing) = []"
  by (simp add: storage_defs)

lemma toString_example: "toString 1700000000000 = ''1700000000000''"
  by (simp add: toString.simps digit_def)

lemma toString_example': "toString 1700000000001 = ''1700000000001''"
  by (simp add: toString.simps digit_def)



subsection \<open>Photo paths are never empty\<close>

lemma handle_paths:
  assumes "\<forall>it \<in> set (loadInventory doc). photoPath it \<noteq> Some []"
  shows "\<forall>it \<in> set (loadInventory (snd (handle op doc))). photoPath it \<noteq> Some []"
proof (cases op)
  case (Register req b f now)
  show ?thesis
  proof (cases b)
    case None
    with Register assms show ?thesis by (simp add: register_no_body)
  next
    case (Some form)
    with Register assms show ?thesis
      by (cases form; cases f)
        (auto simp: register_inventory path_nonempty split: option.splits)
  qed
next
  case (ListAll req)
  with assms show ?thesis by (simp add: list_document)
next
  case (GetById req pid)
  with assms show ?thesis by (simp add: get_document)
next
  case (UpdateFields pid req_body)
  show ?thesis
  proof (cases req_body)
    case None
    with assms UpdateFields show ?thesis by (simp add: update_no_body)
  next
    case b: (Some b)
    show ?thesis
    proof (cases "findIndex (\<lambda>x. id' x = pid) (loadInventory doc)")
      case None
      with assms UpdateFields b show ?thesis by (simp add: update_inventory)
    next
      case (Some k)
      then have "k < length (loadInventory doc)" by (auto dest: findIndex_Some)
      then have "loadInventory doc ! k \<in> set (loadInventory doc)" by simp
      with assms have "photoPath (loadInventory doc ! k) \<noteq> Some []" by blast
      with assms UpdateFields b Some show ?thesis
        by (auto simp: update_inventory dest!: set_update_subset_insert [THEN subsetD])
    qed
  qed
next
  case (ReplacePhoto req pid f)
  with assms show ?thesis
    by (auto simp: photo_inventory path_nonempty split: option.splits
        dest!: set_update_subset_insert [THEN subsetD])
next
  case (Delete pid)
  with assms show ?thesis
    using set_splice1 [of _ "loadInventory doc"]
    by (auto simp: delete_inventory split: option.splits)
next
  case (Search req b)
  with assms show ?thesis by (simp add: search_document)
qed

lemma run_paths:
  "\<forall>it \<in> set (loadInventory doc). photoPath it \<noteq> Some [] \<Longrightarrow>
   \<forall>it \<in> set (loadInventory (run ops doc)). photoPath it \<noteq> Some []"
proof (induction ops arbitrary: doc)
  case Nil
  then show ?case by simp
next
  case (Cons op ops)
  from Cons.prems have "\<forall>it \<in> set (loadInventory (snd (handle op doc))). photoPath it \<noteq> Some []"
    by (rule handle_paths)
  then show ?case by (simp add: Cons.IH)
qed

lemma reachable_truthy:
  assumes "loadInventory doc0 = []" and "k < length (loadInventory (run ops doc0))"
  shows "truthy (photoPath (loadInventory (run ops doc0) ! k)) \<longleftrightarrow>
         photoPath (loadInventory (run ops doc0) ! k) \<noteq> None"
proof -
  from assms(1) have "\<forall>it \<in> set (loadInventory (run ops doc0)). photoPath it \<noteq> Some []"
    by (intro run_paths) simp
  with assms(2) have "photoPath (loadInventory (run ops doc0) ! k) \<noteq> Some []"
    by simp
  then show ?thesis by (auto simp: truthy_def split: option.splits)
qed

lemma search_found:
  assumes "k < length (loadInventory doc)"
    and "Some (id' (loadInventory doc ! k)) = sid"
    and "\<forall>j<k. Some (id' (loadInventory doc ! j)) \<noteq> sid"
  shows "fst (post_search req (Some (SearchBody sid hp)) doc) =
    (200, Found (id' (loadInventory doc ! k)) (name (loadInventory doc ! k))
       (if truthy hp \<and> truthy (photoPath (loadInventory doc ! k))
        then description (loadInventory doc ! k) @ photo_note req sid
        else description (loadInventory doc ! k))
       (truthy (photoPath (loadInventory doc ! k))))"
proof -
  from assms have "findIndex (\<lambda>x. Some (id' x) = sid) (loadInventory doc) = Some k"
    by (intro findIndex_first) auto
  then show ?thesis by (simp add: post_search_def Let_def)
qed

lemma update_found:
  assumes "k < length (loadInventory doc)"
    and "id' (loadInventory doc ! k) = pid"
    and "\<forall>j<k. id' (loadInventory doc ! j) \<noteq> pid"
  shows "put_inventory_id pid (Some b) doc =
    ((200, Updated (id' (loadInventory doc ! k))
        (nullish (b_name b) (name (loadInventory doc ! k)))
        (nullish (b_description b) (description (loadInventory doc ! k)))),
     saveInventory ((loadInventory doc)[k := (loadInventory doc ! k)
        \<lparr>name := nullish (b_name b) (name (loadInventory doc ! k)),
         description := nullish (b_description b) (description (loadInventory doc ! k))\<rparr>]) doc)"
proof -
  from assms have "findIndex (\<lambda>x. id' x = pid) (loadInventory doc) = Some k"
    by (intro findIndex_first) auto
  then show ?thesis by (simp add: put_inventory_id_def Let_def)
qed

lemma update_missing:
  assumes "\<forall>x \<in> set (loadInventory doc). id' x \<noteq> pid"
  shows "put_inventory_id pid req_body doc = ((404, ErrorMsg ''Not found''), doc)"
proof -
  from assms have "findIndex (\<lambda>x. id' x = pid) (loadInventory doc) = None"
    by (simp add: findIndex_None_iff)
  then show ?thesis by (simp add: put_inventory_id_def Let_def)
qed

lemmas url_defs = buildPhotoUrl_def photo_note_def

section \<open>Claims\<close>

subsection \<open>Identifiers\<close>

text \<open>
  C1. Identifiers are pairwise distinct in every state reached from an empty collection by
  Register, List, Get, Update-fields, Replace-photo, Delete and Search requests, provided
  the clock readings that the accepted Register requests of the sequence take are
  pairwise distinct; every identifier is the decimal rendering of one of these readings.
  The handler has no check against an identifier that is already present, so the proviso
  is needed.
\<close>

theorem ids_distinct_for_distinct_clock:
  "loadInventory doc0 = [] \<Longrightarrow> distinct (clock_readings ops) \<Longrightarrow>
   distinct (map id' (loadInventory (run ops doc0))) \<and>
   set (map id' (loadInventory (run ops doc0))) \<subseteq> toString ` set (clock_readings ops)"
  using run_ids [of doc0 "{}" ops] by simp

text \<open>
  Two registrations one millisecond apart; between them a registration with a blank name,
  which is refused and takes no clock reading, and a deletion of an unknown id.
\<close>

theorem ids_distinct_for_distinct_clock_witness:
  "loadInventory (ensureCacheDir Missing) = [] \<and>
   clock_readings
      [Register \<lparr>protocol = ''http'', host = Some ''localhost:3000''\<rparr>
         (Some (RegisterBody (Some ''Drill'') None)) None 1700000000000,
       Register \<lparr>protocol = ''http'', host = Some ''localhost:3000''\<rparr>
         (Some (RegisterBody (Some '' '') None)) None 1700000000000,
       Delete ''3'',
       Register \<lparr>protocol = ''http'', host = Some ''localhost:3000''\<rparr>
         (Some (RegisterBody (Some ''Saw'') None)) None 1700000000001] =
     [1700000000000, 1700000000001] \<and>
   distinct [1700000000000, 1700000000001 :: nat] \<and>
   map id' (loadInventory (run
      [Register \<lparr>protocol = ''http'', host = Some ''localhost:3000''\<rparr>
         (Some (RegisterBody (Some ''Drill'') None)) None 1700000000000,
       Register \<lparr>protocol = ''http'', host = Some ''localhost:3000''\<rparr>
         (Some (RegisterBody (Some '' '') None)) None 1700000000000,
       Delete ''3'',
       Register \<lparr>protocol = ''http'', host = Some ''localhost:3000''\<rparr>
         (Some (RegisterBody (Some ''Saw'') None)) None 1700000000001]
      (ensureCacheDir Missing))) = [''1700000000000'', ''1700000000001''] \<and>
   distinct (map id' (loadInventory (run
      [Register \<lparr>protocol = ''http'', host = Some ''localhost:3000''\<rparr>
         (Some (RegisterBody (Some ''Drill'') None)) None 1700000000000,
       Register \<lparr>protocol = ''http'', host = Some ''localhost:3000''\<rparr>
         (Some (RegisterBody (Some '' '') None)) None 1700000000000,
       Delete ''3'',
       Register \<lparr>protocol = ''http'', host = Some ''localhost:3000''\<rparr>
         (Some (RegisterBody (Some ''Saw'') None)) None 1700000000001]
      (ensureCacheDir Missing))))"
  using ids_distinct_for_distinct_clock [of "ensureCacheDir Missing"
      "[Register \<lparr>protocol = ''http'', host = Some ''localhost:3000''\<rparr>
         (Some (RegisterBody (Some ''Drill'') None)) None 1700000000000,
       Register \<lparr>protocol = ''http'', host = Some ''localhost:3000''\<rparr>
         (Some (RegisterBody (Some '' '') None)) None 1700000000000,
       Delete ''3'',
       Register \<lparr>protocol = ''http'', host = Some ''localhost:3000''\<rparr>
         (Some (RegisterBody (Some ''Saw'') None)) None 1700000000001]"]
  by (simp add: storage_defs handler_defs toString_example toString_example')

text \<open>
  Two registrations within the same millisecond, on a fresh cache directory: both items
  get the same identifier.
\<close>

theorem same_millisecond_same_id:
  "map id' (loadInventory (run
      [Register \<lparr>protocol = ''http'', host = Some ''localhost:3000''\<rparr>
         (Some (RegisterBody (Some ''Drill'') None)) None 1700000000000,
       Register \<lparr>protocol = ''http'', host = Some ''localhost:3000''\<rparr>
         (Some (RegisterBody (Some ''Saw'') None)) None 1700000000000]
      (ensureCacheDir Missing))) = [''1700000000000'', ''1700000000000''] \<and>
   \<not> distinct (map id' (loadInventory (run
      [Register \<lparr>protocol = ''http'', host = Some ''localhost:3000''\<rparr>
         (Some (RegisterBody (Some ''Drill'') None)) None 1700000000000,
       Register \<lparr>protocol = ''http'', host = Some ''localhost:3000''\<rparr>
         (Some (RegisterBody (Some ''Saw'') None)) None 1700000000000]
      (ensureCacheDir Missing))))"
  by (simp add: storage_defs handler_defs toString_example)

subsection \<open>Names\<close>

text \<open>
  C2. After a registration with the name \<^verbatim>\<open>Drill\<close>, an update whose body is
  \<^verbatim>\<open>{"name": ""}\<close> answers 200 and persists the item with the empty name: the check of
  the register handler has no counterpart in the update handler.
\<close>

theorem update_persists_empty_name:
  "fst (handle
     (UpdateFields ''1700000000000'' (Some \<lparr>b_name = Str '''', b_description = Undefined\<rparr>))
     (run [Register \<lparr>protocol = ''http'', host = Some ''localhost:3000''\<rparr>
             (Some (RegisterBody (Some ''Drill'') (Some ''cordless''))) None 1700000000000]
        (ensureCacheDir Missing))) = (200, Updated ''1700000000000'' '''' ''cordless'') \<and>
   map name (loadInventory (run
      [Register \<lparr>protocol = ''http'', host = Some ''localhost:3000''\<rparr>
         (Some (RegisterBody (Some ''Drill'') (Some ''cordless''))) None 1700000000000,
       UpdateFields ''1700000000000'' (Some \<lparr>b_name = Str '''', b_description = Undefined\<rparr>)]
      (ensureCacheDir Missing))) = ['''']"
  by (simp add: storage_defs handler_defs toString_example)

subsection \<open>Loading\<close>

text \<open>
  C3. Loading never fails: a missing document, an unreadable document and a document that
  is not valid JSON all load as the empty collection, and a document that holds a
  serialized collection loads as that collection.
\<close>

theorem loadInventory_never_fails:
  "loadInventory Missing = [] \<and>
   loadInventory Unreadable = [] \<and>
   loadInventory (Content (Malformed s)) = [] \<and>
   loadInventory (Content (JSON_stringify xs)) = xs"
  by (simp add: loadInventory_def JSON_stringify_def)

subsection \<open>Registration\<close>




text \<open>
  C7. On an empty collection, registering the name \<^verbatim>\<open>Drill\<close> with the description
  \<^verbatim>\<open>cordless\<close> and no photo, then listing, answers 200 with exactly one entry, which
  has that name, that description and no photo URL.
\<close>

theorem register_then_list:
  "loadInventory doc = [] \<Longrightarrow>
   fst (get_inventory req2
     (snd (post_register req (Some (RegisterBody (Some ''Drill'') (Some ''cordless'')))
        None now doc))) =
   (200, Listing [\<lparr>e_id = toString now, e_name = ''Drill'', e_description = ''cordless'',
                  e_photoUrl = None\<rparr>])"
  by (simp add: get_inventory_def register_inventory to_entry_def photoUrl_def truthy_def
      or_empty_def trim_def isWhiteSpace_def Let_def)

text \<open>The same on a fresh cache directory, with the identifier written out.\<close>

theorem register_then_list_witness:
  "loadInventory (ensureCacheDir Missing) = [] \<and>
   fst (get_inventory \<lparr>protocol = ''http'', host = Some ''localhost:3000''\<rparr>
     (snd (post_register \<lparr>protocol = ''http'', host = Some ''localhost:3000''\<rparr>
        (Some (RegisterBody (Some ''Drill'') (Some ''cordless''))) None 1700000000000
        (ensureCacheDir Missing)))) =
   (200, Listing [\<lparr>e_id = ''1700000000000'', e_name = ''Drill'', e_description = ''cordless'',
                  e_photoUrl = None\<rparr>])"
  using register_then_list [where doc = "ensureCacheDir Missing"
      and req = "\<lparr>protocol = ''http'', host = Some ''localhost:3000''\<rparr>"
      and ?req2.0 = "\<lparr>protocol = ''http'', host = Some ''localhost:3000''\<rparr>"
      and now = 1700000000000]
  by (simp add: fresh_start toString_example)

text \<open>
  C8. A name that is not empty after trimming is stored as submitted, with its leading
  and trailing white space, and the response carries it in the same form.
\<close>

theorem register_keeps_name_verbatim:
  "trim n \<noteq> [] \<Longrightarrow>
   map name (loadInventory
      (snd (post_register req (Some (RegisterBody (Some n) descr)) f now doc))) =
     map name (loadInventory doc) @ [n] \<and>
   (\<exists>e. fst (post_register req (Some (RegisterBody (Some n) descr)) f now doc) =
          (201, Created e) \<and> e_name e = n)"
  by (auto simp: register_inventory post_register_def to_entry_def Let_def trim_Nil_imp)

text \<open>The name \<^verbatim>\<open>Drill\<close> between two spaces.\<close>

theorem register_keeps_name_verbatim_witness:
  "trim '' Drill '' = ''Drill'' \<and>
   map name (loadInventory (snd (post_register
      \<lparr>protocol = ''http'', host = Some ''localhost:3000''\<rparr>
      (Some (RegisterBody (Some '' Drill '') None)) None 1700000000000
      (ensureCacheDir Missing)))) = ['' Drill '']"
  using register_keeps_name_verbatim [where n = "'' Drill ''"
      and req = "\<lparr>protocol = ''http'', host = Some ''localhost:3000''\<rparr>"
      and descr = None and f = None and now = 1700000000000 and doc = "ensureCacheDir Missing"]
  by (simp add: fresh_start trim_def isWhiteSpace_def)

subsection \<open>Updating fields\<close>

text \<open>
  C5. An Update-fields request addresses the first item whose identifier is the one of
  the path. Each of \<^verbatim>\<open>name\<close> and \<^verbatim>\<open>description\<close> is replaced exactly when the body
  gives it a value that is not \<^verbatim>\<open>null\<close>, and keeps its current value when the field is
  absent or \<^verbatim>\<open>null\<close>, or the request has no parsed body. The identifier and the photo
  path of the item, the length of the collection and every other item stay as they were,
  and the response to a request with a parsed body is 200 with the new values. When no
  item has the identifier the response is 404 and the document is untouched.
\<close>

theorem update_replaces_non_null_fields:
  assumes "items = loadInventory doc"
    and "items' = loadInventory (snd (put_inventory_id pid req_body doc))"
  shows "(\<forall>k. k < length items \<and> id' (items ! k) = pid \<and> (\<forall>j<k. id' (items ! j) \<noteq> pid) \<longrightarrow>
      length items' = length items \<and>
      name (items' ! k) =
        (case req_body of
           None \<Rightarrow> name (items ! k)
         | Some b \<Rightarrow>
             (case b_name b of Undefined \<Rightarrow> name (items ! k) | Null \<Rightarrow> name (items ! k)
              | Str s \<Rightarrow> s)) \<and>
      description (items' ! k) =
        (case req_body of
           None \<Rightarrow> description (items ! k)
         | Some b \<Rightarrow>
             (case b_description b of Undefined \<Rightarrow> description (items ! k)
              | Null \<Rightarrow> description (items ! k) | Str s \<Rightarrow> s)) \<and>
      id' (items' ! k) = id' (items ! k) \<and>
      photoPath (items' ! k) = photoPath (items ! k) \<and>
      (\<forall>j<length items. j \<noteq> k \<longrightarrow> items' ! j = items ! j) \<and>
      (req_body \<noteq> None \<longrightarrow>
         fst (put_inventory_id pid req_body doc) =
           (200, Updated pid (name (items' ! k)) (description (items' ! k))))) \<and>
   ((\<forall>x \<in> set items. id' x \<noteq> pid) \<longrightarrow>
      put_inventory_id pid req_body doc = ((404, ErrorMsg ''Not found''), doc))"
proof (cases req_body)
  case None
  then have "items' = items"
    using assms by (simp add: update_no_body)
  with None assms(1) show ?thesis
    by (simp add: update_missing)
next
  case (Some b)
  have n: "nullish v cur = (case v of Undefined \<Rightarrow> cur | Null \<Rightarrow> cur | Str s \<Rightarrow> s)" for v cur
    by (cases v) simp_all
  show ?thesis
  proof (intro conjI allI impI)
    fix k
    assume "k < length items \<and> id' (items ! k) = pid \<and> (\<forall>j<k. id' (items ! j) \<noteq> pid)"
    then have k: "k < length (loadInventory doc)" "id' (loadInventory doc ! k) = pid"
      "\<forall>j<k. id' (loadInventory doc ! j) \<noteq> pid"
      by (simp_all add: assms(1))
    note u = update_found [OF k, of b]
    show "length items' = length items"
      unfolding assms Some by (simp add: u)
    show "name (items' ! k) =
        (case req_body of
           None \<Rightarrow> name (items ! k)
         | Some b \<Rightarrow>
             (case b_name b of Undefined \<Rightarrow> name (items ! k) | Null \<Rightarrow> name (items ! k)
              | Str s \<Rightarrow> s))"
      unfolding assms Some using k(1) by (simp add: u n)
    show "description (items' ! k) =
        (case req_body of
           None \<Rightarrow> description (items ! k)
         | Some b \<Rightarrow>
             (case b_description b of Undefined \<Rightarrow> description (items ! k)
              | Null \<Rightarrow> description (items ! k) | Str s \<Rightarrow> s))"
      unfolding assms Some using k(1) by (simp add: u n)
    show "id' (items' ! k) = id' (items ! k)"
      unfolding assms Some using k(1) by (simp add: u)
    show "photoPath (items' ! k) = photoPath (items ! k)"
      unfolding assms Some using k(1) by (simp add: u)
    show "fst (put_inventory_id pid req_body doc) =
        (200, Updated pid (name (items' ! k)) (description (items' ! k)))"
      unfolding assms Some using k(1,2) by (simp add: u)
    fix j
    assume "j < length items" "j \<noteq> k"
    then show "items' ! j = items ! j"
      unfolding assms Some by (simp add: u)
  next
    assume "\<forall>x \<in> set items. id' x \<noteq> pid"
    then show "put_inventory_id pid req_body doc = ((404, ErrorMsg ''Not found''), doc)"
      unfolding assms(1) by (rule update_missing)
  qed
qed

text \<open>
  A body with a description only, sent for the stored item and for an unknown identifier.
\<close>

theorem update_replaces_non_null_fields_witness:
  "map name (loadInventory (snd (put_inventory_id ''1700000000000''
      (Some \<lparr>b_name = Undefined, b_description = Str ''18V''\<rparr>)
      (saveInventory [\<lparr>id' = ''1700000000000'', name = ''Drill'', description = ''cordless'',
                       photoPath = None\<rparr>] Missing)))) = [''Drill''] \<and>
   map description (loadInventory (snd (put_inventory_id ''1700000000000''
      (Some \<lparr>b_name = Undefined, b_description = Str ''18V''\<rparr>)
      (saveInventory [\<lparr>id' = ''1700000000000'', name = ''Drill'', description = ''cordless'',
                       photoPath = None\<rparr>] Missing)))) = [''18V''] \<and>
   fst (put_inventory_id ''1700000000000''
      (Some \<lparr>b_name = Undefined, b_description = Str ''18V''\<rparr>)
      (saveInventory [\<lparr>id' = ''1700000000000'', name = ''Drill'', description = ''cordless'',
                       photoPath = None\<rparr>] Missing)) =
     (200, Updated ''1700000000000'' ''Drill'' ''18V'') \<and>
   put_inventory_id ''42'' (Some \<lparr>b_name = Undefined, b_description = Str ''18V''\<rparr>)
      (saveInventory [\<lparr>id' = ''1700000000000'', name = ''Drill'', description = ''cordless'',
                       photoPath = None\<rparr>] Missing) =
     ((404, ErrorMsg ''Not found''),
      saveInventory [\<lparr>id' = ''1700000000000'', name = ''Drill'', description = ''cordless'',
                       photoPath = None\<rparr>] Missing)"
  using
    update_replaces_non_null_fields [where pid = "''1700000000000''"
      and req_body = "Some \<lparr>b_name = Undefined, b_description = Str ''18V''\<rparr>"
      and doc = "saveInventory [\<lparr>id' = ''1700000000000'', name = ''Drill'',
         description = ''cordless'', photoPath = None\<rparr>] Missing", OF refl refl]
    update_replaces_non_null_fields [where pid = "''42''"
      and req_body = "Some \<lparr>b_name = Undefined, b_description = Str ''18V''\<rparr>"
      and doc = "saveInventory [\<lparr>id' = ''1700000000000'', name = ''Drill'',
         description = ''cordless'', photoPath = None\<rparr>] Missing", OF refl refl]
  by (simp add: storage_defs handler_defs)

text \<open>
  The body \<^verbatim>\<open>{"name": null}\<close> provides the field, yet the stored name is not replaced
  by what was provided: it stays \<^verbatim>\<open>Drill\<close>.
\<close>

theorem update_null_name_not_replaced:
  "b_name \<lparr>b_name = Null, b_description = Undefined\<rparr> \<noteq> Undefined \<and>
   map name (loadInventory (snd (put_inventory_id ''1700000000000''
      (Some \<lparr>b_name = Null, b_description = Undefined\<rparr>)
      (saveInventory [\<lparr>id' = ''1700000000000'', name = ''Drill'', description = ''cordless'',
                       photoPath = None\<rparr>] Missing)))) = [''Drill''] \<and>
   fst (put_inventory_id ''1700000000000''
      (Some \<lparr>b_name = Null, b_description = Undefined\<rparr>)
      (saveInventory [\<lparr>id' = ''1700000000000'', name = ''Drill'', description = ''cordless'',
                       photoPath = None\<rparr>] Missing)) =
     (200, Updated ''1700000000000'' ''Drill'' ''cordless'')"
  by (simp add: storage_defs handler_defs)

text \<open>
  C9. In an Update-fields request a field that is \<^verbatim>\<open>null\<close> acts as an absent one: the
  response and the document are the same for both bodies, and the field of the addressed
  item keeps its value. A field that is the empty string replaces the stored value with
  the empty string.
\<close>

theorem update_null_like_absent:
  "put_inventory_id pid (Some (b\<lparr>b_name := Null\<rparr>)) doc =
     put_inventory_id pid (Some (b\<lparr>b_name := Undefined\<rparr>)) doc \<and>
   put_inventory_id pid (Some (b\<lparr>b_description := Null\<rparr>)) doc =
     put_inventory_id pid (Some (b\<lparr>b_description := Undefined\<rparr>)) doc \<and>
   (\<forall>k. k < length (loadInventory doc) \<and> id' (loadInventory doc ! k) = pid \<and>
        (\<forall>j<k. id' (loadInventory doc ! j) \<noteq> pid) \<longrightarrow>
      name (loadInventory (snd (put_inventory_id pid (Some (b\<lparr>b_name := Null\<rparr>)) doc)) ! k) =
        name (loadInventory doc ! k) \<and>
      name (loadInventory (snd (put_inventory_id pid (Some (b\<lparr>b_name := Str []\<rparr>)) doc)) ! k) =
        [] \<and>
      description
        (loadInventory (snd (put_inventory_id pid (Some (b\<lparr>b_description := Null\<rparr>)) doc)) ! k) =
        description (loadInventory doc ! k) \<and>
      description
        (loadInventory (snd (put_inventory_id pid (Some (b\<lparr>b_description := Str []\<rparr>)) doc)) ! k) =
        [])"
proof (intro conjI allI impI)
  show "put_inventory_id pid (Some (b\<lparr>b_name := Null\<rparr>)) doc =
      put_inventory_id pid (Some (b\<lparr>b_name := Undefined\<rparr>)) doc"
    by (simp add: put_inventory_id_def Let_def split: option.split)
  show "put_inventory_id pid (Some (b\<lparr>b_description := Null\<rparr>)) doc =
      put_inventory_id pid (Some (b\<lparr>b_description := Undefined\<rparr>)) doc"
    by (simp add: put_inventory_id_def Let_def split: option.split)
next
  fix k
  assume "k < length (loadInventory doc) \<and> id' (loadInventory doc ! k) = pid \<and>
        (\<forall>j<k. id' (loadInventory doc ! j) \<noteq> pid)"
  then have k: "k < length (loadInventory doc)" "id' (loadInventory doc ! k) = pid"
    "\<forall>j<k. id' (loadInventory doc ! j) \<noteq> pid"
    by simp_all
  note u = update_found [OF k]
  show "name (loadInventory (snd (put_inventory_id pid (Some (b\<lparr>b_name := Null\<rparr>)) doc)) ! k) =
        name (loadInventory doc ! k)"
    using k(1) by (simp add: u)
  show "name (loadInventory (snd (put_inventory_id pid (Some (b\<lparr>b_name := Str []\<rparr>)) doc)) ! k) =
        []"
    using k(1) by (simp add: u)
  show "description
        (loadInventory (snd (put_inventory_id pid (Some (b\<lparr>b_description := Null\<rparr>)) doc)) ! k) =
        description (loadInventory doc ! k)"
    using k(1) by (simp add: u)
  show "description
        (loadInventory (snd (put_inventory_id pid (Some (b\<lparr>b_description := Str []\<rparr>)) doc)) ! k) =
        []"
    using k(1) by (simp add: u)
qed

text \<open>A body of two \<^verbatim>\<open>null\<close>s, and a body whose name is the empty string.\<close>

theorem update_null_like_absent_witness:
  "map name (loadInventory (snd (put_inventory_id ''1700000000000''
      (Some \<lparr>b_name = Null, b_description = Null\<rparr>)
      (saveInventory [\<lparr>id' = ''1700000000000'', name = ''Drill'', description = ''cordless'',
                       photoPath = None\<rparr>] Missing)))) = [''Drill''] \<and>
   map name (loadInventory (snd (put_inventory_id ''1700000000000''
      (Some \<lparr>b_name = Str [], b_description = Null\<rparr>)
      (saveInventory [\<lparr>id' = ''1700000000000'', name = ''Drill'', description = ''cordless'',
                       photoPath = None\<rparr>] Missing)))) = [[]]"
  using
    update_null_like_absent [where pid = "''1700000000000''"
      and b = "\<lparr>b_name = Null, b_description = Null\<rparr>"
      and doc = "saveInventory [\<lparr>id' = ''1700000000000'', name = ''Drill'',
         description = ''cordless'', photoPath = None\<rparr>] Missing"]
  by (simp add: storage_defs handler_defs)

subsection \<open>Searching\<close>

text \<open>
  C6. In every state reached from an empty collection, a Search request, with or without
  a parsed body, leaves the document as it is, hence the stored description of every
  item. When the first item with the submitted identifier is found, the response is 200;
  its description is the stored one, followed by the photo-URL note exactly when the flag
  is set and the item has a photo path; its \<^verbatim>\<open>hasPhoto\<close> is true exactly when the item
  has a photo path.
\<close>

theorem search_leaves_collection:
  assumes "loadInventory doc0 = []" and "doc = run ops doc0" and "items = loadInventory doc"
  shows "snd (post_search req req_body doc) = doc \<and>
   map description (loadInventory (snd (post_search req req_body doc))) =
     map description items \<and>
   (\<forall>k. k < length items \<and> Some (id' (items ! k)) = sid \<and>
        (\<forall>j<k. Some (id' (items ! j)) \<noteq> sid) \<longrightarrow>
      fst (post_search req (Some (SearchBody sid has_photo)) doc) =
        (200, Found (id' (items ! k)) (name (items ! k))
           (if truthy has_photo \<and> photoPath (items ! k) \<noteq> None
            then description (items ! k) @ photo_note req sid
            else description (items ! k))
           (photoPath (items ! k) \<noteq> None)))"
proof (intro conjI allI impI)
  show "snd (post_search req req_body doc) = doc"
    by (rule search_document)
  then show "map description (loadInventory (snd (post_search req req_body doc))) =
      map description items"
    using assms(3) by simp
next
  fix k
  assume "k < length items \<and> Some (id' (items ! k)) = sid \<and>
    (\<forall>j<k. Some (id' (items ! j)) \<noteq> sid)"
  then have k: "k < length (loadInventory doc)" "Some (id' (loadInventory doc ! k)) = sid"
    "\<forall>j<k. Some (id' (loadInventory doc ! j)) \<noteq> sid"
    by (simp_all add: assms(3))
  from assms(1) k(1) have t: "truthy (photoPath (loadInventory doc ! k)) \<longleftrightarrow>
      photoPath (loadInventory doc ! k) \<noteq> None"
    unfolding assms(2) by (rule reachable_truthy)
  show "fst (post_search req (Some (SearchBody sid has_photo)) doc) =
        (200, Found (id' (items ! k)) (name (items ! k))
           (if truthy has_photo \<and> photoPath (items ! k) \<noteq> None
            then description (items ! k) @ photo_note req sid
            else description (items ! k))
           (photoPath (items ! k) \<noteq> None))"
    unfolding assms(3) by (simp only: search_found [OF k] t)
qed

text \<open>
  A search with the flag set, for an item registered without a photo and for one
  registered with a photo.
\<close>

theorem search_leaves_collection_witness:
  "loadInventory (ensureCacheDir Missing) = [] \<and>
   post_search \<lparr>protocol = ''http'', host = Some ''localhost:3000''\<rparr>
      (Some (SearchBody (Some ''1700000000000'') (Some ''on'')))
      (run [Register \<lparr>protocol = ''http'', host = Some ''localhost:3000''\<rparr>
              (Some (RegisterBody (Some ''Drill'') (Some ''cordless''))) None 1700000000000]
         (ensureCacheDir Missing)) =
     ((200, Found ''1700000000000'' ''Drill'' ''cordless'' False),
      run [Register \<lparr>protocol = ''http'', host = Some ''localhost:3000''\<rparr>
             (Some (RegisterBody (Some ''Drill'') (Some ''cordless''))) None 1700000000000]
        (ensureCacheDir Missing)) \<and>
   fst (post_search \<lparr>protocol = ''http'', host = Some ''localhost:3000''\<rparr>
      (Some (SearchBody (Some ''1700000000000'') (Some ''on'')))
      (run [Register \<lparr>protocol = ''http'', host = Some ''localhost:3000''\<rparr>
              (Some (RegisterBody (Some ''Drill'') (Some ''cordless'')))
              (Some \<lparr>destination = ''/srv/cache'', filename = ''a1b2''\<rparr>) 1700000000000]
         (ensureCacheDir Missing))) =
     (200, Found ''1700000000000'' ''Drill''
        (''cordless'' @ [CHR 0x0A] @
           ''Photo: http://localhost:3000/inventory/1700000000000/photo'') True)"
  using
    search_leaves_collection [where ?doc0.0 = "ensureCacheDir Missing"
      and sid = "Some ''1700000000000''" and has_photo = "Some ''on''"
      and req_body = "Some (SearchBody (Some ''1700000000000'') (Some ''on''))"
      and req = "\<lparr>protocol = ''http'', host = Some ''localhost:3000''\<rparr>"
      and ops = "[Register \<lparr>protocol = ''http'', host = Some ''localhost:3000''\<rparr>
         (Some (RegisterBody (Some ''Drill'') (Some ''cordless''))) None 1700000000000]",
      OF fresh_start refl refl]
    search_leaves_collection [where ?doc0.0 = "ensureCacheDir Missing"
      and sid = "Some ''1700000000000''" and has_photo = "Some ''on''"
      and req_body = "Some (SearchBody (Some ''1700000000000'') (Some ''on''))"
      and req = "\<lparr>protocol = ''http'', host = Some ''localhost:3000''\<rparr>"
      and ops = "[Register \<lparr>protocol = ''http'', host = Some ''localhost:3000''\<rparr>
         (Some (RegisterBody (Some ''Drill'') (Some ''cordless'')))
         (Some \<lparr>destination = ''/srv/cache'', filename = ''a1b2''\<rparr>) 1700000000000]",
      OF fresh_start refl refl]
  by (simp add: storage_defs handler_defs url_defs toString_example)

text \<open>
  C10. The flag \<^verbatim>\<open>has_photo\<close> counts by the truthiness of the submitted string. In
  every state reached from an empty collection, when the item found has a photo path,
  every non-empty flag, \<^verbatim>\<open>false\<close> and \<^verbatim>\<open>0\<close> among them, makes the response carry the
  description followed by the photo-URL note, and an absent or empty flag makes it carry
  the description alone.
\<close>

theorem search_flag_is_truthiness:
  assumes "loadInventory doc0 = []" and "doc = run ops doc0" and "items = loadInventory doc"
    and "k < length items" and "Some (id' (items ! k)) = sid"
    and "\<forall>j<k. Some (id' (items ! j)) \<noteq> sid"
    and "photoPath (items ! k) \<noteq> None"
  shows "(\<forall>s. s \<noteq> [] \<longrightarrow> fst (post_search req (Some (SearchBody sid (Some s))) doc) =
      (200, Found (id' (items ! k)) (name (items ! k))
         (description (items ! k) @ photo_note req sid) True)) \<and>
   fst (post_search req (Some (SearchBody sid (Some ''false''))) doc) =
      (200, Found (id' (items ! k)) (name (items ! k))
         (description (items ! k) @ photo_note req sid) True) \<and>
   fst (post_search req (Some (SearchBody sid (Some ''0''))) doc) =
      (200, Found (id' (items ! k)) (name (items ! k))
         (description (items ! k) @ photo_note req sid) True) \<and>
   fst (post_search req (Some (SearchBody sid None)) doc) =
      (200, Found (id' (items ! k)) (name (items ! k)) (description (items ! k)) True) \<and>
   fst (post_search req (Some (SearchBody sid (Some []))) doc) =
      (200, Found (id' (items ! k)) (name (items ! k)) (description (items ! k)) True)"
proof -
  from assms(3-6) have k: "k < length (loadInventory doc)"
    "Some (id' (loadInventory doc ! k)) = sid"
    "\<forall>j<k. Some (id' (loadInventory doc ! j)) \<noteq> sid"
    by simp_all
  from assms(1) k(1) have "truthy (photoPath (loadInventory doc ! k)) \<longleftrightarrow>
      photoPath (loadInventory doc ! k) \<noteq> None"
    unfolding assms(2) by (rule reachable_truthy)
  with assms(3,7) have t: "truthy (photoPath (loadInventory doc ! k))" by simp
  have f: "truthy (Some s) \<longleftrightarrow> s \<noteq> []" "\<not> truthy None" for s
    by (simp_all add: truthy_def)
  show ?thesis
    unfolding assms(3) by (simp add: search_found [OF k] t f)
qed

text \<open>An item registered with a photo, searched with the flag \<^verbatim>\<open>false\<close>.\<close>

theorem search_flag_is_truthiness_witness:
  "loadInventory (ensureCacheDir Missing) = [] \<and>
   map photoPath (loadInventory (run
      [Register \<lparr>protocol = ''http'', host = Some ''localhost:3000''\<rparr>
         (Some (RegisterBody (Some ''Drill'') (Some ''cordless'')))
         (Some \<lparr>destination = ''/srv/cache'', filename = ''a1b2''\<rparr>) 1700000000000]
      (ensureCacheDir Missing))) = [Some ''/srv/cache/a1b2''] \<and>
   fst (post_search \<lparr>protocol = ''http'', host = Some ''localhost:3000''\<rparr>
      (Some (SearchBody (Some ''1700000000000'') (Some ''false'')))
      (run [Register \<lparr>protocol = ''http'', host = Some ''localhost:3000''\<rparr>
              (Some (RegisterBody (Some ''Drill'') (Some ''cordless'')))
              (Some \<lparr>destination = ''/srv/cache'', filename = ''a1b2''\<rparr>) 1700000000000]
         (ensureCacheDir Missing))) =
     (200, Found ''1700000000000'' ''Drill''
        (''cordless'' @ [CHR 0x0A] @
           ''Photo: http://localhost:3000/inventory/1700000000000/photo'') True)"
  using
    search_flag_is_truthiness [where ?doc0.0 = "ensureCacheDir Missing" and k = 0
      and sid = "Some ''1700000000000''"
      and req = "\<lparr>protocol = ''http'', host = Some ''localhost:3000''\<rparr>"
      and ops = "[Register \<lparr>protocol = ''http'', host = Some ''localhost:3000''\<rparr>
         (Some (RegisterBody (Some ''Drill'') (Some ''cordless'')))
         (Some \<lparr>destination = ''/srv/cache'', filename = ''a1b2''\<rparr>) 1700000000000]",
      OF fresh_start refl refl]
  by (simp add: storage_defs handler_defs url_defs toString_example)

end
